theory Spec2Isabelle
  imports Main "HOL-Library.Char_ord" "HOL-Library.List_Lexorder"
begin

section \<open>The command line interface (scripts/cli.py)\<close>

text \<open>
  \<^verbatim>\<open>cli.py\<close> is glue: it parses the command line, runs the validator, loads
  entries through the \<^verbatim>\<open>views\<close> module, optionally filters or sorts them and hands
  them to the curses browser. The modules \<^verbatim>\<open>scripts.views\<close> and
  \<^verbatim>\<open>scripts.validation\<close> are imported by \<^verbatim>\<open>cli.py\<close> but their code is not part of
  the sources at hand, so every function of theirs is a field of an environment
  record: a call either returns a value or raises. What \<^verbatim>\<open>cli.py\<close> does is
  observed as the list of calls it makes, in order, together with its result.
\<close>

subsection \<open>Exceptions, events and the environment\<close>

datatype exn = Exn string

text \<open>The calls and outputs of \<^verbatim>\<open>cli.py\<close> that can be observed from outside.\<close>

datatype 'e event =
    RunInit
  | RunValidation
  | PrintLine string
  | AcquireDisplay
  | ReleaseDisplay
  | LoadFiles string
  | ExactSearch "'e list" string string
  | FuzzySearch "'e list" string string
  | SortItems "'e list" string bool
  | DisplayFiles "'e list" string
  | ViewsMain

type_synonym ('e, 'a) run = "'e event list \<times> (exn + 'a)"

record 'e env =
  init_outcome :: "exn option"
  validation_main :: "exn option"
  getcwd :: string
  org_exists :: bool
  curses_initscr :: "exn option"
  views_load_files_from_subdir :: "string \<Rightarrow> exn + 'e list"
  views_exact_search :: "'e list \<Rightarrow> string \<Rightarrow> string \<Rightarrow> exn + 'e list"
  views_fuzzy_search :: "'e list \<Rightarrow> string \<Rightarrow> string \<Rightarrow> exn + 'e list"
  views_sort_items :: "'e list \<Rightarrow> string \<Rightarrow> bool \<Rightarrow> exn + 'e list"
  views_display_files_with_view :: "'e list \<Rightarrow> string \<Rightarrow> exn option"
  views_main :: "exn option"

text \<open>Sequencing: an exception raised by the first part skips the rest.\<close>

definition and_then :: "('e, 'a) run \<Rightarrow> ('a \<Rightarrow> ('e, 'b) run) \<Rightarrow> ('e, 'b) run" where
  "and_then m f =
     (case m of
        (t, Inl e) \<Rightarrow> (t, Inl e)
      | (t, Inr a) \<Rightarrow> (case f a of (t', r) \<Rightarrow> (t @ t', r)))"

definition done_with :: "'a \<Rightarrow> ('e, 'a) run" where
  "done_with a = ([], Inr a)"

definition outcome :: "exn option \<Rightarrow> exn + unit" where
  "outcome r = (case r of None \<Rightarrow> Inr () | Some e \<Rightarrow> Inl e)"

text \<open>Python's truth value of an optional string argument: \<^verbatim>\<open>None\<close> and \<^verbatim>\<open>''\<close> are false.\<close>

fun truthy :: "string option \<Rightarrow> bool" where
  "truthy None = False"
| "truthy (Some s) = (s \<noteq> [])"

subsection \<open>Calls into the other modules\<close>

definition run_validation :: "'e env \<Rightarrow> ('e, unit) run" where
  "run_validation env = ([RunValidation], outcome (validation_main env))"

definition load_files_from_subdir :: "'e env \<Rightarrow> string \<Rightarrow> ('e, 'e list) run" where
  "load_files_from_subdir env subdir = ([LoadFiles subdir], views_load_files_from_subdir env subdir)"

definition exact_search :: "'e env \<Rightarrow> 'e list \<Rightarrow> string \<Rightarrow> string \<Rightarrow> ('e, 'e list) run" where
  "exact_search env entries p t = ([ExactSearch entries p t], views_exact_search env entries p t)"

definition fuzzy_search :: "'e env \<Rightarrow> 'e list \<Rightarrow> string \<Rightarrow> string \<Rightarrow> ('e, 'e list) run" where
  "fuzzy_search env entries p t = ([FuzzySearch entries p t], views_fuzzy_search env entries p t)"

definition sort_items :: "'e env \<Rightarrow> 'e list \<Rightarrow> string \<Rightarrow> bool \<Rightarrow> ('e, 'e list) run" where
  "sort_items env entries p r = ([SortItems entries p r], views_sort_items env entries p r)"

definition display_files_with_view :: "'e env \<Rightarrow> 'e list \<Rightarrow> string \<Rightarrow> ('e, unit) run" where
  "display_files_with_view env entries file_type =
     ([DisplayFiles entries file_type], outcome (views_display_files_with_view env entries file_type))"

text \<open>
  \<^verbatim>\<open>curses.wrapper(func)\<close> of the standard library: it initialises the screen, calls
  \<^verbatim>\<open>func\<close> and restores the terminal in a \<^verbatim>\<open>finally\<close> block, whether \<^verbatim>\<open>func\<close>
  returned or raised. When the initialisation itself raises, \<^verbatim>\<open>func\<close> is not called.
  The set-up is taken as one step with two outcomes, \<^verbatim>\<open>curses_initscr\<close>: it
  succeeds as a whole (\<^verbatim>\<open>None\<close>), or \<^verbatim>\<open>initscr()\<close> raises before any screen
  exists. A failure of \<^verbatim>\<open>noecho\<close>, \<^verbatim>\<open>cbreak\<close> or \<^verbatim>\<open>keypad\<close> after a successful
  \<^verbatim>\<open>initscr()\<close> is not represented.
\<close>

definition curses_wrapper :: "'e env \<Rightarrow> ('e, 'a) run \<Rightarrow> ('e, 'a) run" where
  "curses_wrapper env func =
     (case curses_initscr env of
        Some e \<Rightarrow> ([], Inl e)
      | None \<Rightarrow> (case func of (t, r) \<Rightarrow> ([AcquireDisplay] @ t @ [ReleaseDisplay], r)))"

subsection \<open>\<^verbatim>\<open>display_graphical_view\<close>\<close>

text \<open>The \<^verbatim>\<open>if\<close>/\<^verbatim>\<open>elif\<close> chain on \<^verbatim>\<open>file_type\<close>; any other value leaves \<^verbatim>\<open>entries = []\<close>.\<close>

definition load_entries :: "'e env \<Rightarrow> string \<Rightarrow> ('e, 'e list) run" where
  "load_entries env file_type =
     (if file_type = ''notes'' then load_files_from_subdir env ''notes''
      else if file_type = ''todos'' then load_files_from_subdir env ''todos''
      else if file_type = ''events'' then load_files_from_subdir env ''events''
      else if file_type = ''all'' then
        and_then (load_files_from_subdir env ''notes'') (\<lambda>notes.
        and_then (load_files_from_subdir env ''todos'') (\<lambda>todos.
        and_then (load_files_from_subdir env ''events'') (\<lambda>events.
        done_with (notes @ todos @ events))))
      else done_with [])"

text \<open>\<^verbatim>\<open>if search_prop and search_term: ...\<close> with the choice on \<^verbatim>\<open>exact\<close>.\<close>

definition apply_search ::
  "'e env \<Rightarrow> 'e list \<Rightarrow> string option \<Rightarrow> string option \<Rightarrow> bool \<Rightarrow> ('e, 'e list) run" where
  "apply_search env entries search_prop search_term exact =
     (case (search_prop, search_term) of
        (Some p, Some t) \<Rightarrow>
          if truthy search_prop \<and> truthy search_term then
            (if exact then exact_search env entries p t else fuzzy_search env entries p t)
          else done_with entries
      | _ \<Rightarrow> done_with entries)"

text \<open>\<^verbatim>\<open>if sort_prop: entries = views.sort_items(entries, prop=sort_prop, reverse=reverse)\<close>.\<close>

definition apply_sort :: "'e env \<Rightarrow> 'e list \<Rightarrow> string option \<Rightarrow> bool \<Rightarrow> ('e, 'e list) run" where
  "apply_sort env entries sort_prop reverse =
     (case sort_prop of
        Some p \<Rightarrow> if truthy sort_prop then sort_items env entries p reverse else done_with entries
      | None \<Rightarrow> done_with entries)"

text \<open>The nested function \<^verbatim>\<open>inner(stdscr)\<close>.\<close>

definition inner ::
  "'e env \<Rightarrow> string \<Rightarrow> string option \<Rightarrow> string option \<Rightarrow> bool \<Rightarrow> string option \<Rightarrow> bool
     \<Rightarrow> ('e, unit) run" where
  "inner env file_type search_prop search_term exact sort_prop reverse =
     and_then (load_entries env file_type) (\<lambda>entries.
     and_then (apply_search env entries search_prop search_term exact) (\<lambda>entries.
     and_then (apply_sort env entries sort_prop reverse) (\<lambda>entries.
     display_files_with_view env entries file_type)))"

definition display_graphical_view ::
  "'e env \<Rightarrow> string \<Rightarrow> string option \<Rightarrow> string option \<Rightarrow> bool \<Rightarrow> string option \<Rightarrow> bool
     \<Rightarrow> ('e, unit) run" where
  "display_graphical_view env file_type search_prop search_term exact sort_prop reverse =
     curses_wrapper env (inner env file_type search_prop search_term exact sort_prop reverse)"

subsection \<open>\<^verbatim>\<open>main\<close>\<close>

text \<open>
  The namespace that \<^verbatim>\<open>parser.parse_args()\<close> returns. The attributes of the
  \<^verbatim>\<open>view\<close> subcommand are optional positionals (\<^verbatim>\<open>nargs='?'\<close>), \<^verbatim>\<open>None\<close> when not
  given.
\<close>

record args =
  command :: "string option"
  file_type :: string
  search_command :: "string option"
  search_prop :: "string option"
  search_term :: "string option"

text \<open>
  \<^verbatim>\<open>init()\<close> scaffolds directories and patches \<^verbatim>\<open>.gitignore\<close>; \<^verbatim>\<open>main\<close> only calls
  it, and it is observed here as one call with its outcome.
\<close>

definition init :: "'e env \<Rightarrow> ('e, unit) run" where
  "init env = ([RunInit], outcome (init_outcome env))"

definition not_initialized_message :: "string \<Rightarrow> string" where
  "not_initialized_message current_dir =
     ''Error: '' @ [CHR 0x27] @ ''.org'' @ [CHR 0x27] @ '' file not found in '' @ current_dir
       @ ''. This directory is not initialized for org.''"

text \<open>
  The chain of \<^verbatim>\<open>if\<close>/\<^verbatim>\<open>elif\<close> on \<^verbatim>\<open>args.search_command\<close> inside the \<^verbatim>\<open>view\<close>
  branch of \<^verbatim>\<open>main\<close>, entered after the validator has returned.
\<close>

definition view_dispatch :: "'e env \<Rightarrow> args \<Rightarrow> ('e, unit) run" where
  "view_dispatch env a =
     (if search_command a = Some ''s'' \<and> truthy (search_prop a) \<and> truthy (search_term a) then
        display_graphical_view env (file_type a) (search_prop a) (search_term a) False None False
      else if search_command a = Some ''es'' \<and> truthy (search_prop a) \<and> truthy (search_term a) then
        display_graphical_view env (file_type a) (search_prop a) (search_term a) True None False
      else if search_command a = Some ''o'' \<and> truthy (search_prop a) then
        display_graphical_view env (file_type a) None None False (search_prop a) False
      else if search_command a = Some ''r'' \<and> truthy (search_prop a) then
        display_graphical_view env (file_type a) None None False (search_prop a) True
      else if search_command a = Some ''a'' then
        display_graphical_view env (file_type a) None None False None False
      else
        display_graphical_view env (file_type a) None None False None False)"

definition main :: "'e env \<Rightarrow> args \<Rightarrow> ('e, unit) run" where
  "main env a =
     (if command a = Some ''init'' then init env
      else if command a = Some ''view'' then
        and_then (run_validation env) (\<lambda>_. view_dispatch env a)
      else if command a = Some ''val'' then run_validation env
      else if \<not> org_exists env then
        ([PrintLine (not_initialized_message (getcwd env))], Inr ())
      else
        curses_wrapper env ([ViewsMain], outcome (views_main env)))"


subsection \<open>Observations on a run\<close>

text \<open>The query transforms among the calls of a run, and how many there are.\<close>

fun is_transform :: "'e event \<Rightarrow> bool" where
  "is_transform (ExactSearch es p t) = True"
| "is_transform (FuzzySearch es p t) = True"
| "is_transform (SortItems es p r) = True"
| "is_transform ev = False"

definition transforms :: "'e event list \<Rightarrow> nat" where
  "transforms t = length (filter is_transform t)"

text \<open>
  The calls that belong to a browsing session: acquiring and releasing the
  display and everything that happens in between.
\<close>

fun session_event :: "'e event \<Rightarrow> bool" where
  "session_event RunInit = False"
| "session_event RunValidation = False"
| "session_event (PrintLine s) = False"
| "session_event ev = True"

text \<open>The lines that a run prints for the user.\<close>

fun is_report :: "'e event \<Rightarrow> bool" where
  "is_report (PrintLine s) = True"
| "is_report ev = False"

section \<open>The record catalogue and the browser (module \<^verbatim>\<open>scripts.views\<close>)\<close>

text \<open>
  \<^verbatim>\<open>cli.py\<close> delegates loading, searching, sorting and browsing to
  \<^verbatim>\<open>scripts.views\<close>, whose code is not among the sources. The definitions of this
  section follow the specification's description of that module (sections 3 and 4 of
  the specification).
\<close>

subsection \<open>Data model\<close>

datatype kind = Note | Todo | Event

text \<open>
  Modelled from the spec: the Record of section 3 (the record type of
  \<^verbatim>\<open>scripts.views\<close> is missing). \<^verbatim>\<open>properties\<close> is an ordered mapping from
  property name to value, kept as an association list.
\<close>

record entry =
  kind :: kind
  sourcePath :: string
  properties :: "(string \<times> string) list"
  rawContent :: string

type_synonym collection = "entry list"

text \<open>
  Modelled from the spec: the lookup of a named property with an explicit
  "missing" case (section 9; the property access of \<^verbatim>\<open>scripts.views\<close> is missing).
\<close>

definition property_value :: "entry \<Rightarrow> string \<Rightarrow> string option" where
  "property_value r name = map_of (properties r) name"

subsection \<open>Record Loader\<close>

text \<open>
  Modelled from the spec: what the loader finds on disk (section 4.1;
  \<^verbatim>\<open>views.load_files_from_subdir\<close> is missing). The root directory is the list of
  its immediate subdirectories; each has a name and its folders by name, a folder that
  does not exist being absent from the list. A folder holds regular files, readable
  (already parsed into properties and raw text) or not, and other entries, which a
  non-recursive scan does not enter.
\<close>

datatype dir_entry =
    RegularFile string "((string \<times> string) list \<times> string) option"
  | OtherEntry string

record project =
  dir_name :: string
  folders :: "(string \<times> dir_entry list) list"

text \<open>String tests: prefix, contiguous substring, subsequence.\<close>

fun starts_with :: "string \<Rightarrow> string \<Rightarrow> bool" where
  "starts_with v [] = True"
| "starts_with [] (c # t) = False"
| "starts_with (d # v) (c # t) = (d = c \<and> starts_with v t)"

fun is_substring :: "string \<Rightarrow> string \<Rightarrow> bool" where
  "is_substring t [] = (t = [])"
| "is_substring t (d # v) = (starts_with (d # v) t \<or> is_substring t v)"

fun is_subsequence :: "string \<Rightarrow> string \<Rightarrow> bool" where
  "is_subsequence [] v = True"
| "is_subsequence (c # t) [] = False"
| "is_subsequence (c # t) (d # v) =
     (if c = d then is_subsequence t v else is_subsequence (c # t) v)"

text \<open>
  Modelled from the spec: a marked subdirectory is one whose name contains the
  configured marker substring (section 4.1 and glossary; the scan of
  \<^verbatim>\<open>scripts.views\<close> is missing).
\<close>

definition is_marked :: "string \<Rightarrow> project \<Rightarrow> bool" where
  "is_marked marker proj = is_substring marker (dir_name proj)"

text \<open>
  Modelled from the spec: the kind-named folder, \<^verbatim>\<open>notes\<close>, \<^verbatim>\<open>todos\<close> or
  \<^verbatim>\<open>events\<close> (section 4.1; missing from the sources).
\<close>

fun kind_folder :: "kind \<Rightarrow> string" where
  "kind_folder Note = ''notes''"
| "kind_folder Todo = ''todos''"
| "kind_folder Event = ''events''"

text \<open>
  Modelled from the spec: one file is one Record; an unreadable file is skipped and
  loading continues (section 4.1; missing from the sources).
\<close>

fun load_file :: "kind \<Rightarrow> dir_entry \<Rightarrow> collection" where
  "load_file k (RegularFile p (Some (props, raw))) =
     [\<lparr>kind = k, sourcePath = p, properties = props, rawContent = raw\<rparr>]"
| "load_file k (RegularFile p None) = []"
| "load_file k (OtherEntry p) = []"

text \<open>
  Modelled from the spec: the load of one marked subdirectory; a missing kind-folder
  yields an empty sequence, not an error (section 4.1; missing from the sources).
\<close>

definition load_project :: "kind \<Rightarrow> project \<Rightarrow> collection" where
  "load_project k proj =
     (case map_of (folders proj) (kind_folder k) of
        None \<Rightarrow> []
      | Some files \<Rightarrow> concat (map (load_file k) files))"

text \<open>
  Modelled from the spec: the Record Loader's contract, the Records of every marked
  subdirectory in scan order (section 4.1; \<^verbatim>\<open>views.load_files_from_subdir\<close> is
  missing).
\<close>

definition load_kind :: "string \<Rightarrow> project list \<Rightarrow> kind \<Rightarrow> collection" where
  "load_kind marker root k = concat (map (load_project k) (filter (is_marked marker) root))"

subsection \<open>Query Engine\<close>

text \<open>Lower-casing of the letters \<^verbatim>\<open>A\<close> to \<^verbatim>\<open>Z\<close>, for the case-insensitive match.\<close>

definition lower_char :: "char \<Rightarrow> char" where
  "lower_char c =
     (if CHR ''A'' \<le> c \<and> c \<le> CHR ''Z'' then char_of (of_char c + (32::nat)) else c)"

definition lower :: "string \<Rightarrow> string" where
  "lower s = map lower_char s"

text \<open>
  Modelled from the spec: the fuzzy match, a case-insensitive substring-or-subsequence
  match of the term against the named property's value, against the raw content when
  the record lacks the property (section 4.2; \<^verbatim>\<open>views.fuzzy_search\<close> is missing).
\<close>

definition fuzzy_match :: "string \<Rightarrow> string \<Rightarrow> entry \<Rightarrow> bool" where
  "fuzzy_match p t r =
     (let haystack = (case property_value r p of Some v \<Rightarrow> v | None \<Rightarrow> rawContent r)
      in is_substring (lower t) (lower haystack) \<or> is_subsequence (lower t) (lower haystack))"

text \<open>
  Modelled from the spec: the exact match, case-sensitive equality of the named
  property's value and the term; a record lacking the property does not match
  (section 4.2; \<^verbatim>\<open>views.exact_search\<close> is missing).
\<close>

definition exact_match :: "string \<Rightarrow> string \<Rightarrow> entry \<Rightarrow> bool" where
  "exact_match p t r = (property_value r p = Some t)"

text \<open>
  Modelled from the spec: fuzzy search, a stable filter; an empty term or an absent
  property is a no-op (section 4.2; \<^verbatim>\<open>views.fuzzy_search\<close> is missing).
\<close>

definition fuzzySearch :: "collection \<Rightarrow> string option \<Rightarrow> string option \<Rightarrow> collection" where
  "fuzzySearch c property term =
     (case (property, term) of
        (Some p, Some t) \<Rightarrow> if t = [] then c else filter (fuzzy_match p t) c
      | _ \<Rightarrow> c)"

text \<open>
  Modelled from the spec: exact search, with the same no-op edge case (section 4.2;
  \<^verbatim>\<open>views.exact_search\<close> is missing).
\<close>

definition exactSearch :: "collection \<Rightarrow> string option \<Rightarrow> string option \<Rightarrow> collection" where
  "exactSearch c property term =
     (case (property, term) of
        (Some p, Some t) \<Rightarrow> if t = [] then c else filter (exact_match p t) c
      | _ \<Rightarrow> c)"

text \<open>
  Modelled from the spec: the sort key of a record that has the property, its value
  compared lexically as a string (section 4.2; \<^verbatim>\<open>views.sort_items\<close> is missing).
\<close>

definition sort_value :: "string \<Rightarrow> entry \<Rightarrow> string" where
  "sort_value p r = (case property_value r p of Some v \<Rightarrow> v | None \<Rightarrow> [])"

definition has_property :: "string \<Rightarrow> entry \<Rightarrow> bool" where
  "has_property p r = (property_value r p \<noteq> None)"

text \<open>
  Modelled from the spec: sort, a stable ordering by the property's value with the
  records missing the property after all others in their original order;
  \<^verbatim>\<open>reverse\<close> reverses the final ordering; an absent property is a no-op
  (section 4.2; \<^verbatim>\<open>views.sort_items\<close> is missing).
\<close>

definition sortCollection :: "collection \<Rightarrow> string option \<Rightarrow> bool \<Rightarrow> collection" where
  "sortCollection c property reverse =
     (case property of
        None \<Rightarrow> c
      | Some p \<Rightarrow>
          (let ordered = sort_key (sort_value p) (filter (has_property p) c)
                           @ filter (\<lambda>r. \<not> has_property p r) c
           in if reverse then rev ordered else ordered))"

subsection \<open>Browser Session\<close>

datatype phase = Browsing | Terminated

text \<open>
  Modelled from the spec: the Session State of section 3 (the browser of
  \<^verbatim>\<open>scripts.views\<close> is missing).
\<close>

record session =
  fullCollection :: collection
  viewCollection :: collection
  cursorIndex :: int
  kindFilter :: string
  phase :: phase

text \<open>
  Modelled from the spec: the input events of section 4.3 (missing from the sources).
\<close>

datatype input_event =
    MoveUp
  | MoveDown
  | FuzzyCommand "string option" "string option"
  | ExactCommand "string option" "string option"
  | OrderCommand "string option"
  | ReverseCommand "string option"
  | ResetCommand
  | Quit

text \<open>
  Modelled from the spec: clamping to the valid range, \<^verbatim>\<open>[0, len(viewCollection)-1]\<close>,
  or \<^verbatim>\<open>0\<close> when the Collection is empty (sections 3 and 8; missing from the
  sources).
\<close>

definition clamp_cursor :: "collection \<Rightarrow> int \<Rightarrow> int" where
  "clamp_cursor view i = (if view = [] then 0 else max 0 (min (int (length view) - 1) i))"

text \<open>
  Modelled from the spec: the transitions of section 4.3, all occurring while in
  \<^verbatim>\<open>Browsing\<close> (the event loop of \<^verbatim>\<open>scripts.views\<close> is missing).
\<close>

fun transition :: "session \<Rightarrow> input_event \<Rightarrow> session" where
  "transition s MoveUp = s\<lparr>cursorIndex := clamp_cursor (viewCollection s) (cursorIndex s - 1)\<rparr>"
| "transition s MoveDown = s\<lparr>cursorIndex := clamp_cursor (viewCollection s) (cursorIndex s + 1)\<rparr>"
| "transition s (FuzzyCommand p t) =
     s\<lparr>viewCollection := fuzzySearch (fullCollection s) p t, cursorIndex := 0\<rparr>"
| "transition s (ExactCommand p t) =
     s\<lparr>viewCollection := exactSearch (fullCollection s) p t, cursorIndex := 0\<rparr>"
| "transition s (OrderCommand p) =
     s\<lparr>viewCollection := sortCollection (viewCollection s) p False, cursorIndex := 0\<rparr>"
| "transition s (ReverseCommand p) =
     s\<lparr>viewCollection := sortCollection (viewCollection s) p True, cursorIndex := 0\<rparr>"
| "transition s ResetCommand = s\<lparr>viewCollection := fullCollection s, cursorIndex := 0\<rparr>"
| "transition s Quit = s\<lparr>phase := Terminated\<rparr>"

definition step :: "session \<Rightarrow> input_event \<Rightarrow> session" where
  "step s ev = (if phase s = Terminated then s else transition s ev)"

text \<open>
  Modelled from the spec: a session starts in \<^verbatim>\<open>Browsing\<close> on the collection handed
  to it, with the cursor on the first row, and processes one event to completion
  before the next (sections 4.3 and 5; missing from the sources).
\<close>

definition start_session :: "collection \<Rightarrow> collection \<Rightarrow> string \<Rightarrow> session" where
  "start_session full view kinds =
     \<lparr>fullCollection = full, viewCollection = view, cursorIndex = 0, kindFilter = kinds,
      phase = Browsing\<rparr>"

definition run_session :: "session \<Rightarrow> input_event list \<Rightarrow> session" where
  "run_session s evs = foldl step s evs"

text \<open>
  Modelled from the spec: the range in which \<^verbatim>\<open>cursorIndex\<close> must lie (section 8;
  missing from the sources).
\<close>

definition cursor_in_range :: "session \<Rightarrow> bool" where
  "cursor_in_range s =
     (if viewCollection s = [] then cursorIndex s = 0
      else 0 \<le> cursorIndex s \<and> cursorIndex s \<le> int (length (viewCollection s)) - 1)"

text \<open>
  Modelled from the spec: the rendering contract of section 4.3 (the drawing code of
  \<^verbatim>\<open>scripts.views\<close> is missing): the rows of the view inside a window of at most
  \<^verbatim>\<open>height\<close> rows starting at row \<^verbatim>\<open>first_row\<close>, the row at \<^verbatim>\<open>cursorIndex\<close>
  highlighted, and an explicit placeholder when the view is empty.
\<close>

datatype screen_row = NoEntries | Row entry bool

definition render :: "session \<Rightarrow> nat \<Rightarrow> nat \<Rightarrow> screen_row list" where
  "render s first_row height =
     (if viewCollection s = [] then [NoEntries]
      else take height (drop first_row
        (map (\<lambda>(i, r). Row r (int i = cursorIndex s))
             (zip [0 ..< length (viewCollection s)] (viewCollection s)))))"

section \<open>Example inputs\<close>

definition example_env :: "string env" where
  "example_env =
     \<lparr>init_outcome = None, validation_main = None, getcwd = ''/home/user/work'',
      org_exists = False, curses_initscr = None,
      views_load_files_from_subdir =
        (\<lambda>subdir. Inr (if subdir = ''notes'' then [''n1'', ''n2'']
                        else if subdir = ''todos'' then [''t1''] else [''e1''])),
      views_exact_search = (\<lambda>es p t. Inr (filter (\<lambda>e. e = t) es)),
      views_fuzzy_search = (\<lambda>es p t. Inr (filter (\<lambda>e. is_subsequence t e) es)),
      views_sort_items = (\<lambda>es p r. Inr (if r then rev es else es)),
      views_display_files_with_view = (\<lambda>es ft. None),
      views_main = None\<rparr>"

definition example_args :: "string option \<Rightarrow> string option \<Rightarrow> string option \<Rightarrow> args" where
  "example_args c p t =
     \<lparr>command = Some ''view'', file_type = ''notes'', search_command = c, search_prop = p,
      search_term = t\<rparr>"

definition todo_entry :: "string \<Rightarrow> string \<Rightarrow> entry" where
  "todo_entry p status =
     \<lparr>kind = Todo, sourcePath = p, properties = [(''status'', status)], rawContent = []\<rparr>"

definition untitled_entry :: "string \<Rightarrow> entry" where
  "untitled_entry p = \<lparr>kind = Todo, sourcePath = p, properties = [], rawContent = ''open''\<rparr>"

definition example_todos :: collection where
  "example_todos =
     [todo_entry ''a'' ''open'', untitled_entry ''u'', todo_entry ''b'' ''open'',
      todo_entry ''c'' ''done'']"

definition example_root :: "project list" where
  "example_root =
     [\<lparr>dir_name = ''work_org'',
        folders = [(''todos'', [RegularFile ''work_org/todos/a'' (Some ([(''status'', ''open'')], ''call'')),
                               RegularFile ''work_org/todos/b'' None,
                               OtherEntry ''work_org/todos/archive''])]\<rparr>,
      \<lparr>dir_name = ''home_org'', folders = [(''notes'', []), (''todos'', [])]\<rparr>,
      \<lparr>dir_name = ''drafts'',
        folders = [(''notes'', [RegularFile ''drafts/notes/x'' (Some ([], ''draft''))])]\<rparr>]"

definition example_catalogue_env :: "entry env" where
  "example_catalogue_env =
     \<lparr>init_outcome = None, validation_main = None, getcwd = ''/home/user/work'',
      org_exists = True, curses_initscr = None,
      views_load_files_from_subdir =
        (\<lambda>subdir. Inr (if subdir = ''notes'' then load_kind ''_org'' example_root Note
                        else if subdir = ''todos'' then load_kind ''_org'' example_root Todo
                        else load_kind ''_org'' example_root Event)),
      views_exact_search = (\<lambda>es p t. Inr (exactSearch es (Some p) (Some t))),
      views_fuzzy_search = (\<lambda>es p t. Inr (fuzzySearch es (Some p) (Some t))),
      views_sort_items = (\<lambda>es p r. Inr (sortCollection es (Some p) r)),
      views_display_files_with_view = (\<lambda>es ft. None),
      views_main = None\<rparr>"

section \<open>Properties of the command line interface\<close>

subsection \<open>Sequencing\<close>

lemma and_then_Inl [simp]: "and_then (t, Inl e) f = (t, Inl e)"
  by (simp add: and_then_def)

lemma and_then_Inr [simp]: "and_then (t, Inr x) f = (t @ fst (f x), snd (f x))"
  by (simp add: and_then_def split: prod.split)

lemma and_then_done [simp]: "and_then (done_with x) f = f x"
  by (simp add: done_with_def and_then_def split: prod.split)

lemma fst_and_then:
  "fst (and_then m f) = (case snd m of Inl e \<Rightarrow> fst m | Inr x \<Rightarrow> fst m @ fst (f x))"
  by (cases m) (auto simp: and_then_def split: sum.split prod.split)

subsection \<open>Counting transforms\<close>

lemma transforms_simps [simp]:
  "transforms [] = 0"
  "transforms (ev # t) = (if is_transform ev then Suc (transforms t) else transforms t)"
  "transforms (t @ t') = transforms t + transforms t'"
  by (simp_all add: transforms_def)

lemma transforms_and_then:
  "transforms (fst (and_then m f)) =
     (case snd m of Inl e \<Rightarrow> transforms (fst m)
      | Inr x \<Rightarrow> transforms (fst m) + transforms (fst (f x)))"
  by (simp add: fst_and_then split: sum.split)

lemma transforms_load_entries [simp]: "transforms (fst (load_entries env ft)) = 0"
  by (simp add: load_entries_def load_files_from_subdir_def done_with_def transforms_and_then
      split: sum.split)

lemma transforms_apply_search_None [simp]:
  "transforms (fst (apply_search env es None None ex)) = 0"
  by (simp add: apply_search_def done_with_def)

lemma transforms_apply_search: "transforms (fst (apply_search env es sp st ex)) \<le> 1"
  by (simp add: apply_search_def done_with_def exact_search_def fuzzy_search_def
      split: option.split)

lemma transforms_apply_sort_None [simp]:
  "transforms (fst (apply_sort env es None rv)) = 0"
  by (simp add: apply_sort_def done_with_def)

lemma transforms_apply_sort: "transforms (fst (apply_sort env es so rv)) \<le> 1"
  by (simp add: apply_sort_def done_with_def sort_items_def split: option.split)

lemma transforms_display [simp]: "transforms (fst (display_files_with_view env es ft)) = 0"
  by (simp add: display_files_with_view_def)

lemma transforms_curses_wrapper: "transforms (fst (curses_wrapper env f)) \<le> transforms (fst f)"
  by (simp add: curses_wrapper_def split: option.split prod.split)

lemma transforms_inner_search:
  "transforms (fst (inner env ft sp st ex None rv)) \<le> 1"
  using transforms_apply_search [of env _ sp st ex]
  by (simp add: inner_def transforms_and_then split: sum.split)

lemma transforms_inner_sort:
  "transforms (fst (inner env ft None None ex so rv)) \<le> 1"
  using transforms_apply_sort [of env _ so rv]
  by (simp add: inner_def transforms_and_then split: sum.split)

lemma transforms_dgv_search:
  "transforms (fst (display_graphical_view env ft sp st ex None rv)) \<le> 1"
  unfolding display_graphical_view_def
  by (rule order_trans [OF transforms_curses_wrapper transforms_inner_search])

lemma transforms_dgv_sort:
  "transforms (fst (display_graphical_view env ft None None ex so rv)) \<le> 1"
  unfolding display_graphical_view_def
  by (rule order_trans [OF transforms_curses_wrapper transforms_inner_sort])

lemma transforms_view_dispatch: "transforms (fst (view_dispatch env a)) \<le> 1"
  by (simp add: view_dispatch_def transforms_dgv_search [simplified]
      transforms_dgv_sort [simplified])

subsection \<open>The \<^verbatim>\<open>view\<close> branch, step by step\<close>

lemma main_view_validated:
  "command a = Some ''view'' \<Longrightarrow> validation_main env = None \<Longrightarrow>
     main env a = (RunValidation # fst (view_dispatch env a), snd (view_dispatch env a))"
  by (simp add: main_def run_validation_def outcome_def)

lemma main_view_rejected:
  "command a = Some ''view'' \<Longrightarrow> validation_main env = Some e \<Longrightarrow>
     main env a = ([RunValidation], Inl e)"
  by (simp add: main_def run_validation_def outcome_def)

lemma dgv_acquired:
  "curses_initscr env = None \<Longrightarrow>
     fst (display_graphical_view env ft sp st ex so rv) =
       AcquireDisplay # fst (inner env ft sp st ex so rv) @ [ReleaseDisplay]"
  by (simp add: display_graphical_view_def curses_wrapper_def split: prod.split)

lemma inner_fuzzy:
  "load_entries env ft = (lt, Inr full) \<Longrightarrow> p \<noteq> [] \<Longrightarrow> t \<noteq> [] \<Longrightarrow>
   views_fuzzy_search env full p t = Inr found \<Longrightarrow>
     fst (inner env ft (Some p) (Some t) False None rv) =
       lt @ [FuzzySearch full p t, DisplayFiles found ft]"
  by (simp add: inner_def apply_search_def apply_sort_def fuzzy_search_def done_with_def
      display_files_with_view_def)

lemma inner_exact:
  "load_entries env ft = (lt, Inr full) \<Longrightarrow> p \<noteq> [] \<Longrightarrow> t \<noteq> [] \<Longrightarrow>
   views_exact_search env full p t = Inr found \<Longrightarrow>
     fst (inner env ft (Some p) (Some t) True None rv) =
       lt @ [ExactSearch full p t, DisplayFiles found ft]"
  by (simp add: inner_def apply_search_def apply_sort_def exact_search_def done_with_def
      display_files_with_view_def)

lemma inner_sort:
  "load_entries env ft = (lt, Inr full) \<Longrightarrow> p \<noteq> [] \<Longrightarrow>
   views_sort_items env full p rv = Inr ordered \<Longrightarrow>
     fst (inner env ft None None ex (Some p) rv) =
       lt @ [SortItems full p rv, DisplayFiles ordered ft]"
  by (simp add: inner_def apply_search_def apply_sort_def sort_items_def done_with_def
      display_files_with_view_def)

lemma apply_search_skipped:
  "\<not> truthy sp \<or> \<not> truthy st \<Longrightarrow> apply_search env es sp st ex = ([], Inr es)"
  by (cases sp; cases st) (auto simp: apply_search_def done_with_def)

lemma apply_sort_skipped: "\<not> truthy so \<Longrightarrow> apply_sort env es so rv = ([], Inr es)"
  by (cases so) (auto simp: apply_sort_def done_with_def)

lemma inner_unfiltered:
  "load_entries env ft = (lt, Inr full) \<Longrightarrow> \<not> truthy sp \<or> \<not> truthy st \<Longrightarrow> \<not> truthy so \<Longrightarrow>
     inner env ft sp st ex so rv =
       (lt @ [DisplayFiles full ft], outcome (views_display_files_with_view env full ft))"
  by (simp add: inner_def apply_search_skipped apply_sort_skipped display_files_with_view_def)

lemma inner_plain:
  "load_entries env ft = (lt, Inr full) \<Longrightarrow>
     fst (inner env ft None None ex None rv) = lt @ [DisplayFiles full ft]"
  by (simp add: inner_unfiltered)

lemma view_dispatch_no_search:
  "search_command a = Some ''s'' \<or> search_command a = Some ''es'' \<Longrightarrow>
   \<not> truthy (search_prop a) \<or> \<not> truthy (search_term a) \<Longrightarrow>
     view_dispatch env a = display_graphical_view env (file_type a) None None False None False"
  by (erule disjE; erule disjE; simp add: view_dispatch_def)

lemma view_dispatch_no_sort:
  "search_command a = Some ''o'' \<or> search_command a = Some ''r'' \<Longrightarrow>
   \<not> truthy (search_prop a) \<Longrightarrow>
     view_dispatch env a = display_graphical_view env (file_type a) None None False None False"
  by (erule disjE) (simp_all add: view_dispatch_def)

lemma view_dispatch_reset:
  "search_command a = Some ''a'' \<or> search_command a = None \<Longrightarrow>
     view_dispatch env a = display_graphical_view env (file_type a) None None False None False"
  by (erule disjE) (simp_all add: view_dispatch_def)

lemma load_entries_notes_example:
  "load_entries example_env ''notes'' = ([LoadFiles ''notes''], Inr [''n1'', ''n2''])"
  by (simp add: load_entries_def load_files_from_subdir_def example_env_def)

subsection \<open>What a \<^verbatim>\<open>view\<close> run prints\<close>

lemma reports_and_then:
  "filter is_report (fst (and_then m f)) =
     (case snd m of Inl e \<Rightarrow> filter is_report (fst m)
      | Inr x \<Rightarrow> filter is_report (fst m) @ filter is_report (fst (f x)))"
  by (simp add: fst_and_then split: sum.split)

lemma reports_load_entries [simp]: "filter is_report (fst (load_entries env ft)) = []"
  by (simp add: load_entries_def load_files_from_subdir_def done_with_def reports_and_then
      split: sum.split)

lemma reports_apply_search [simp]: "filter is_report (fst (apply_search env es sp st ex)) = []"
  by (simp add: apply_search_def done_with_def exact_search_def fuzzy_search_def
      split: option.split)

lemma reports_apply_sort [simp]: "filter is_report (fst (apply_sort env es so rv)) = []"
  by (simp add: apply_sort_def done_with_def sort_items_def split: option.split)

lemma reports_display [simp]: "filter is_report (fst (display_files_with_view env es ft)) = []"
  by (simp add: display_files_with_view_def)

lemma reports_inner [simp]: "filter is_report (fst (inner env ft sp st ex so rv)) = []"
  by (simp add: inner_def reports_and_then split: sum.split)

lemma reports_display_graphical_view [simp]:
  "filter is_report (fst (display_graphical_view env ft sp st ex so rv)) = []"
  by (simp add: display_graphical_view_def curses_wrapper_def split: option.split prod.split)
    (metis fst_conv reports_inner)

lemma reports_view_dispatch [simp]: "filter is_report (fst (view_dispatch env a)) = []"
  by (simp add: view_dispatch_def)



section \<open>The claims about \<^verbatim>\<open>cli.py\<close>\<close>

text \<open>
  C1. For every \<^verbatim>\<open>view\<close> invocation whose validation succeeds, whose display is
  acquired and whose load returns the collection \<open>full\<close>, the entries handed to the
  browser are: for \<^verbatim>\<open>s\<close> with a property and a term, the fuzzy search of \<open>full\<close>;
  for \<^verbatim>\<open>es\<close> with a property and a term, the exact search of \<open>full\<close>; for \<^verbatim>\<open>o\<close>
  with a property, the sort of \<open>full\<close> with \<^verbatim>\<open>reverse=False\<close>; for \<^verbatim>\<open>r\<close> with a
  property, the sort with \<^verbatim>\<open>reverse=True\<close>; for \<^verbatim>\<open>a\<close> or no command, \<open>full\<close>
  itself. The run consists of exactly these calls.
\<close>

theorem cli_dispatch_transform:
  assumes "command a = Some ''view''"
    and "validation_main env = None"
    and "curses_initscr env = None"
    and "load_entries env (file_type a) = (lt, Inr full)"
  shows
    "(search_command a = Some ''s'' \<and> search_prop a = Some p \<and> p \<noteq> [] \<and>
      search_term a = Some t \<and> t \<noteq> [] \<and> views_fuzzy_search env full p t = Inr found \<longrightarrow>
        fst (main env a) = [RunValidation, AcquireDisplay] @ lt @
          [FuzzySearch full p t, DisplayFiles found (file_type a), ReleaseDisplay]) \<and>
     (search_command a = Some ''es'' \<and> search_prop a = Some p \<and> p \<noteq> [] \<and>
      search_term a = Some t \<and> t \<noteq> [] \<and> views_exact_search env full p t = Inr found \<longrightarrow>
        fst (main env a) = [RunValidation, AcquireDisplay] @ lt @
          [ExactSearch full p t, DisplayFiles found (file_type a), ReleaseDisplay]) \<and>
     (search_command a = Some ''o'' \<and> search_prop a = Some p \<and> p \<noteq> [] \<and>
      views_sort_items env full p False = Inr found \<longrightarrow>
        fst (main env a) = [RunValidation, AcquireDisplay] @ lt @
          [SortItems full p False, DisplayFiles found (file_type a), ReleaseDisplay]) \<and>
     (search_command a = Some ''r'' \<and> search_prop a = Some p \<and> p \<noteq> [] \<and>
      views_sort_items env full p True = Inr found \<longrightarrow>
        fst (main env a) = [RunValidation, AcquireDisplay] @ lt @
          [SortItems full p True, DisplayFiles found (file_type a), ReleaseDisplay]) \<and>
     (search_command a = Some ''a'' \<or> search_command a = None \<longrightarrow>
        fst (main env a) = [RunValidation, AcquireDisplay] @ lt @
          [DisplayFiles full (file_type a), ReleaseDisplay])"
proof -
  note start = main_view_validated [OF assms(1,2)] dgv_acquired [OF assms(3)]
  have fuzzy: "fst (main env a) = [RunValidation, AcquireDisplay] @ lt @
          [FuzzySearch full p t, DisplayFiles found (file_type a), ReleaseDisplay]"
    if "search_command a = Some ''s''" "search_prop a = Some p" "p \<noteq> []"
      "search_term a = Some t" "t \<noteq> []" "views_fuzzy_search env full p t = Inr found"
    using that by (simp add: start view_dispatch_def inner_fuzzy [OF assms(4)])
  have exact: "fst (main env a) = [RunValidation, AcquireDisplay] @ lt @
          [ExactSearch full p t, DisplayFiles found (file_type a), ReleaseDisplay]"
    if "search_command a = Some ''es''" "search_prop a = Some p" "p \<noteq> []"
      "search_term a = Some t" "t \<noteq> []" "views_exact_search env full p t = Inr found"
    using that by (simp add: start view_dispatch_def inner_exact [OF assms(4)])
  have ordered: "fst (main env a) = [RunValidation, AcquireDisplay] @ lt @
          [SortItems full p False, DisplayFiles found (file_type a), ReleaseDisplay]"
    if "search_command a = Some ''o''" "search_prop a = Some p" "p \<noteq> []"
      "views_sort_items env full p False = Inr found"
    using that by (simp add: start view_dispatch_def inner_sort [OF assms(4)])
  have reversed: "fst (main env a) = [RunValidation, AcquireDisplay] @ lt @
          [SortItems full p True, DisplayFiles found (file_type a), ReleaseDisplay]"
    if "search_command a = Some ''r''" "search_prop a = Some p" "p \<noteq> []"
      "views_sort_items env full p True = Inr found"
    using that by (simp add: start view_dispatch_def inner_sort [OF assms(4)])
  have plain: "fst (main env a) = [RunValidation, AcquireDisplay] @ lt @
          [DisplayFiles full (file_type a), ReleaseDisplay]"
    if "search_command a = Some ''a'' \<or> search_command a = None"
    by (simp add: start view_dispatch_reset [OF that] inner_plain [OF assms(4)])
  show ?thesis
  proof (intro conjI impI)
    assume "search_command a = Some ''s'' \<and> search_prop a = Some p \<and> p \<noteq> [] \<and>
      search_term a = Some t \<and> t \<noteq> [] \<and> views_fuzzy_search env full p t = Inr found"
    then show "fst (main env a) = [RunValidation, AcquireDisplay] @ lt @
          [FuzzySearch full p t, DisplayFiles found (file_type a), ReleaseDisplay]"
      by (elim conjE) (rule fuzzy)
  next
    assume "search_command a = Some ''es'' \<and> search_prop a = Some p \<and> p \<noteq> [] \<and>
      search_term a = Some t \<and> t \<noteq> [] \<and> views_exact_search env full p t = Inr found"
    then show "fst (main env a) = [RunValidation, AcquireDisplay] @ lt @
          [ExactSearch full p t, DisplayFiles found (file_type a), ReleaseDisplay]"
      by (elim conjE) (rule exact)
  next
    assume "search_command a = Some ''o'' \<and> search_prop a = Some p \<and> p \<noteq> [] \<and>
      views_sort_items env full p False = Inr found"
    then show "fst (main env a) = [RunValidation, AcquireDisplay] @ lt @
          [SortItems full p False, DisplayFiles found (file_type a), ReleaseDisplay]"
      by (elim conjE) (rule ordered)
  next
    assume "search_command a = Some ''r'' \<and> search_prop a = Some p \<and> p \<noteq> [] \<and>
      views_sort_items env full p True = Inr found"
    then show "fst (main env a) = [RunValidation, AcquireDisplay] @ lt @
          [SortItems full p True, DisplayFiles found (file_type a), ReleaseDisplay]"
      by (elim conjE) (rule reversed)
  next
    assume "search_command a = Some ''a'' \<or> search_command a = None"
    then show "fst (main env a) = [RunValidation, AcquireDisplay] @ lt @
          [DisplayFiles full (file_type a), ReleaseDisplay]"
      by (rule plain)
  qed
qed

theorem cli_dispatch_transform_witness:
  "fst (main example_env (example_args (Some ''s'') (Some ''title'') (Some ''n1''))) =
     [RunValidation, AcquireDisplay, LoadFiles ''notes'',
      FuzzySearch [''n1'', ''n2''] ''title'' ''n1'', DisplayFiles [''n1''] ''notes'',
      ReleaseDisplay]"
  using cli_dispatch_transform [where a = "example_args (Some ''s'') (Some ''title'') (Some ''n1'')"
      and env = example_env and lt = "[LoadFiles ''notes'']" and full = "[''n1'', ''n2'']"
      and p = "''title''" and t = "''n1''" and found = "[''n1'']"]
    load_entries_notes_example
  by (simp add: example_args_def) (simp add: example_env_def)

text \<open>
  C2. An empty or missing search term, or an absent property name, makes the search
  step the identity, and an absent sort property makes the sort step the identity:
  neither \<^verbatim>\<open>views\<close> function is called, so nothing can be raised by them, and the
  collection displayed is the loaded collection unchanged. The same holds from the
  command line: \<^verbatim>\<open>s\<close> or \<^verbatim>\<open>es\<close> without a property or without a term, and \<^verbatim>\<open>o\<close>
  or \<^verbatim>\<open>r\<close> without a property, display the full load.
\<close>

theorem optional_arguments_are_noops:
  "(\<not> truthy sp \<or> \<not> truthy st \<longrightarrow> apply_search env es sp st ex = ([], Inr es)) \<and>
   (\<not> truthy so \<longrightarrow> apply_sort env es so rv = ([], Inr es)) \<and>
   (load_entries env ft = (lt, Inr full) \<and> (\<not> truthy sp \<or> \<not> truthy st) \<and> \<not> truthy so \<longrightarrow>
      inner env ft sp st ex so rv =
        (lt @ [DisplayFiles full ft], outcome (views_display_files_with_view env full ft))) \<and>
   (command a = Some ''view'' \<and> validation_main env = None \<and> curses_initscr env = None \<and>
    load_entries env (file_type a) = (lt, Inr full) \<and>
    ((search_command a = Some ''s'' \<or> search_command a = Some ''es'') \<and>
       (\<not> truthy (search_prop a) \<or> \<not> truthy (search_term a)) \<or>
     (search_command a = Some ''o'' \<or> search_command a = Some ''r'') \<and>
       \<not> truthy (search_prop a)) \<longrightarrow>
      main env a =
        ([RunValidation, AcquireDisplay] @ lt @ [DisplayFiles full (file_type a), ReleaseDisplay],
         outcome (views_display_files_with_view env full (file_type a))))"
proof (intro conjI impI)
  assume "\<not> truthy sp \<or> \<not> truthy st"
  then show "apply_search env es sp st ex = ([], Inr es)"
    by (rule apply_search_skipped)
next
  assume "\<not> truthy so"
  then show "apply_sort env es so rv = ([], Inr es)"
    by (rule apply_sort_skipped)
next
  assume "load_entries env ft = (lt, Inr full) \<and> (\<not> truthy sp \<or> \<not> truthy st) \<and> \<not> truthy so"
  then show "inner env ft sp st ex so rv =
        (lt @ [DisplayFiles full ft], outcome (views_display_files_with_view env full ft))"
    by (simp add: inner_unfiltered)
next
  assume h: "command a = Some ''view'' \<and> validation_main env = None \<and> curses_initscr env = None \<and>
    load_entries env (file_type a) = (lt, Inr full) \<and>
    ((search_command a = Some ''s'' \<or> search_command a = Some ''es'') \<and>
       (\<not> truthy (search_prop a) \<or> \<not> truthy (search_term a)) \<or>
     (search_command a = Some ''o'' \<or> search_command a = Some ''r'') \<and>
       \<not> truthy (search_prop a))"
  then have dispatch: "view_dispatch env a =
      display_graphical_view env (file_type a) None None False None False"
    using view_dispatch_no_search [of a env] view_dispatch_no_sort [of a env] by blast
  have "inner env (file_type a) None None False None False =
      (lt @ [DisplayFiles full (file_type a)],
       outcome (views_display_files_with_view env full (file_type a)))"
    using h by (simp add: inner_unfiltered)
  then have "display_graphical_view env (file_type a) None None False None False =
      (AcquireDisplay # lt @ [DisplayFiles full (file_type a), ReleaseDisplay],
       outcome (views_display_files_with_view env full (file_type a)))"
    using h by (simp add: display_graphical_view_def curses_wrapper_def)
  with h dispatch show "main env a =
        ([RunValidation, AcquireDisplay] @ lt @ [DisplayFiles full (file_type a), ReleaseDisplay],
         outcome (views_display_files_with_view env full (file_type a)))"
    by (simp add: main_view_validated)
qed

theorem optional_arguments_are_noops_witness:
  "apply_search example_env [''n1'', ''n2''] (Some ''title'') (Some []) False =
     ([], Inr [''n1'', ''n2'']) \<and>
   apply_sort example_env [''n1'', ''n2''] None True = ([], Inr [''n1'', ''n2'']) \<and>
   main example_env (example_args (Some ''s'') (Some ''title'') None) =
     ([RunValidation, AcquireDisplay, LoadFiles ''notes'', DisplayFiles [''n1'', ''n2''] ''notes'',
       ReleaseDisplay], Inr ())"
  using optional_arguments_are_noops [where sp = "Some ''title''" and st = "Some []"
      and so = None and env = example_env and es = "[''n1'', ''n2'']" and ex = False
      and rv = True and a = "example_args (Some ''s'') (Some ''title'') None"
      and lt = "[LoadFiles ''notes'']" and full = "[''n1'', ''n2'']" and ft = "''notes''"]
    load_entries_notes_example
  by (simp add: example_args_def) (simp add: example_env_def outcome_def)



text \<open>
  C4. Loading \<^verbatim>\<open>all\<close> loads \<^verbatim>\<open>notes\<close>, then \<^verbatim>\<open>todos\<close>, then \<^verbatim>\<open>events\<close>, and
  when the three loads return, its result is the concatenation of their results in
  that order, each load's own order kept.
\<close>

theorem load_all_concatenates:
  "snd (load_entries env ''notes'') = Inr ns \<Longrightarrow>
   snd (load_entries env ''todos'') = Inr ts \<Longrightarrow>
   snd (load_entries env ''events'') = Inr es \<Longrightarrow>
     load_entries env ''all'' =
       (fst (load_entries env ''notes'') @ fst (load_entries env ''todos'')
          @ fst (load_entries env ''events''),
        Inr (ns @ ts @ es)) \<and>
     fst (load_entries env ''all'') = [LoadFiles ''notes'', LoadFiles ''todos'', LoadFiles ''events'']"
  by (simp add: load_entries_def load_files_from_subdir_def done_with_def)

theorem load_all_concatenates_witness:
  "load_entries example_env ''all'' =
     ([LoadFiles ''notes'', LoadFiles ''todos'', LoadFiles ''events''],
      Inr [''n1'', ''n2'', ''t1'', ''e1''])"
  using load_all_concatenates [where env = example_env and ns = "[''n1'', ''n2'']"
      and ts = "[''t1'']" and es = "[''e1'']"]
  by (simp add: load_entries_def load_files_from_subdir_def example_env_def)

text \<open>
  C5. In every \<^verbatim>\<open>view\<close> invocation the validator is the first call. If it raises,
  the run consists of that call alone and ends with its exception: nothing is loaded
  and no display is acquired. Anything after the validator's call happens only when it
  returned normally, and then the run continues with the dispatch on the search
  command.
\<close>

theorem validation_before_browsing:
  "command a = Some ''view'' \<Longrightarrow>
     (\<forall>e. validation_main env = Some e \<longrightarrow> main env a = ([RunValidation], Inl e)) \<and>
     (\<exists>rest. fst (main env a) = RunValidation # rest \<and>
        (rest \<noteq> [] \<longrightarrow> validation_main env = None)) \<and>
     (\<forall>ev \<in> set (fst (main env a)). session_event ev \<longrightarrow> validation_main env = None) \<and>
     (validation_main env = None \<longrightarrow>
        main env a = (RunValidation # fst (view_dispatch env a), snd (view_dispatch env a)))"
  by (cases "validation_main env") (auto simp: main_view_validated main_view_rejected)

theorem validation_before_browsing_witness:
  "main (example_env\<lparr>validation_main := Some (Exn ''invalid'')\<rparr>) (example_args None None None) =
     ([RunValidation], Inl (Exn ''invalid''))"
  using validation_before_browsing [where a = "example_args None None None"
      and env = "example_env\<lparr>validation_main := Some (Exn ''invalid'')\<rparr>"]
  by (simp add: example_args_def)

text \<open>
  C10. In every \<^verbatim>\<open>view\<close> invocation at most one query transform (exact search,
  fuzzy search or sort) is called before the display, whatever the arguments and
  whatever the calls return: \<^verbatim>\<open>main\<close> passes either the search arguments or the
  sort argument to \<^verbatim>\<open>display_graphical_view\<close>, never both. The function itself
  accepts both: given a search property, a search term and a sort property it calls
  the search and then the sort.
\<close>

theorem at_most_one_transform:
  "(command a = Some ''view'' \<longrightarrow> transforms (fst (main env a)) \<le> 1) \<and>
   (curses_initscr env = None \<and> load_entries env ft = (lt, Inr full) \<and>
    p \<noteq> [] \<and> t \<noteq> [] \<and> q \<noteq> [] \<and>
    views_fuzzy_search env full p t = Inr found \<and>
    views_sort_items env found q rv = Inr ordered \<longrightarrow>
      fst (display_graphical_view env ft (Some p) (Some t) False (Some q) rv) =
        [AcquireDisplay] @ lt @
        [FuzzySearch full p t, SortItems found q rv, DisplayFiles ordered ft, ReleaseDisplay] \<and>
      transforms (fst (display_graphical_view env ft (Some p) (Some t) False (Some q) rv)) = 2)"
proof (intro conjI impI)
  assume "command a = Some ''view''"
  then show "transforms (fst (main env a)) \<le> 1"
    using transforms_view_dispatch [of env a]
    by (simp add: main_def run_validation_def outcome_def split: option.split)
next
  assume h: "curses_initscr env = None \<and> load_entries env ft = (lt, Inr full) \<and>
    p \<noteq> [] \<and> t \<noteq> [] \<and> q \<noteq> [] \<and>
    views_fuzzy_search env full p t = Inr found \<and>
    views_sort_items env found q rv = Inr ordered"
  then have "fst (inner env ft (Some p) (Some t) False (Some q) rv) =
      lt @ [FuzzySearch full p t, SortItems found q rv, DisplayFiles ordered ft]"
    by (simp add: inner_def apply_search_def apply_sort_def fuzzy_search_def sort_items_def
        display_files_with_view_def)
  with h show both: "fst (display_graphical_view env ft (Some p) (Some t) False (Some q) rv) =
        [AcquireDisplay] @ lt @
        [FuzzySearch full p t, SortItems found q rv, DisplayFiles ordered ft, ReleaseDisplay]"
    by (simp add: dgv_acquired)
  have "transforms lt = 0"
    using transforms_load_entries [of env ft] h by simp
  then show "transforms (fst (display_graphical_view env ft (Some p) (Some t) False (Some q) rv)) = 2"
    by (simp add: both)
qed

theorem at_most_one_transform_witness:
  "transforms (fst (main example_env (example_args (Some ''s'') (Some ''title'') (Some ''n1''))))
     \<le> 1 \<and>
   transforms (fst (display_graphical_view example_env ''notes'' (Some ''title'') (Some ''n1'')
     False (Some ''title'') True)) = 2"
  using at_most_one_transform [where a = "example_args (Some ''s'') (Some ''title'') (Some ''n1'')"
      and env = example_env and ft = "''notes''" and lt = "[LoadFiles ''notes'']"
      and full = "[''n1'', ''n2'']" and p = "''title''" and t = "''n1''" and q = "''title''"
      and found = "[''n1'']" and rv = True and ordered = "[''n1'']"]
    load_entries_notes_example
  by (simp add: example_args_def) (simp add: example_env_def)

section \<open>Properties of the catalogue and the browser\<close>

subsection \<open>Matching\<close>

lemma starts_with_self: "starts_with v v"
  by (induction v) simp_all

lemma is_substring_self: "is_substring v v"
  by (cases v) (simp_all add: starts_with_self)

lemma exact_match_fuzzy_match: "exact_match p t r \<Longrightarrow> fuzzy_match p t r"
  by (simp add: exact_match_def fuzzy_match_def is_substring_self)

subsection \<open>Sorting\<close>

lemma sort_key_twice: "sort_key f (sort_key f xs) = sort_key f xs"
  by (rule sort_key_id_if_sorted) (rule sorted_sort_key)

lemma filter_has_sorted:
  "filter (has_property p) (sort_key f (filter (has_property p) c) @ filter (\<lambda>r. \<not> has_property p r) c)
     = sort_key f (filter (has_property p) c)"
  by (simp add: filter_sort)

lemma filter_missing_sorted:
  "filter (\<lambda>r. \<not> has_property p r)
      (sort_key f (filter (has_property p) c) @ filter (\<lambda>r. \<not> has_property p r) c)
     = filter (\<lambda>r. \<not> has_property p r) c"
  by (simp add: filter_sort)

lemma sortCollection_ascending:
  "sortCollection c (Some p) False =
     sort_key (sort_value p) (filter (has_property p) c) @ filter (\<lambda>r. \<not> has_property p r) c"
  by (simp add: sortCollection_def)

lemma sortCollection_descending:
  "sortCollection c (Some p) True = rev (sortCollection c (Some p) False)"
  by (simp add: sortCollection_def)

lemma sortCollection_idempotent:
  "sortCollection (sortCollection c (Some p) False) (Some p) False = sortCollection c (Some p) False"
  by (simp only: sortCollection_ascending filter_has_sorted filter_missing_sorted sort_key_twice)

subsection \<open>Loading\<close>

lemma load_project_nothing:
  "map_of (folders proj) (kind_folder k) = None \<or> map_of (folders proj) (kind_folder k) = Some [] \<Longrightarrow>
     load_project k proj = []"
  by (auto simp: load_project_def)

lemma load_kind_nothing:
  "\<forall>proj \<in> set root. is_marked marker proj \<longrightarrow>
      map_of (folders proj) (kind_folder k) = None \<or> map_of (folders proj) (kind_folder k) = Some [] \<Longrightarrow>
     load_kind marker root k = []"
  by (simp add: load_kind_def load_project_nothing)

lemma load_entries_kind_folder:
  "load_entries env (kind_folder k) =
     ([LoadFiles (kind_folder k)], views_load_files_from_subdir env (kind_folder k))"
  by (cases k) (simp_all add: load_entries_def load_files_from_subdir_def)

subsection \<open>The cursor\<close>

lemma clamp_cursor_in_range:
  "cursor_in_range (s\<lparr>cursorIndex := clamp_cursor (viewCollection s) i\<rparr>)"
  by (auto simp: cursor_in_range_def clamp_cursor_def)

lemma cursor_reset_in_range:
  "cursor_in_range (s\<lparr>viewCollection := v, cursorIndex := 0\<rparr>)"
  by (cases v) (simp_all add: cursor_in_range_def)

lemma transition_in_range: "cursor_in_range s \<Longrightarrow> cursor_in_range (transition s ev)"
proof (cases ev)
  case Quit
  assume "cursor_in_range s"
  then show ?thesis
    using Quit by (auto simp: cursor_in_range_def)
qed (simp_all add: clamp_cursor_in_range cursor_reset_in_range)

lemma step_in_range: "cursor_in_range s \<Longrightarrow> cursor_in_range (step s ev)"
  by (simp add: step_def transition_in_range)

lemma run_session_in_range: "cursor_in_range s \<Longrightarrow> cursor_in_range (run_session s evs)"
  unfolding run_session_def
  by (induction evs arbitrary: s) (simp_all add: step_in_range)

lemma start_session_in_range: "cursor_in_range (start_session full view kinds)"
  by (cases view) (simp_all add: cursor_in_range_def start_session_def)

lemma move_up_clamped:
  "cursor_in_range s \<Longrightarrow> phase s = Browsing \<Longrightarrow>
     cursorIndex (step s MoveUp) = (if cursorIndex s = 0 then 0 else cursorIndex s - 1)"
  by (auto simp: step_def cursor_in_range_def clamp_cursor_def split: if_splits)

lemma move_down_clamped:
  "cursor_in_range s \<Longrightarrow> phase s = Browsing \<Longrightarrow>
     cursorIndex (step s MoveDown) =
       (if viewCollection s = [] \<or> cursorIndex s = int (length (viewCollection s)) - 1
        then cursorIndex s else cursorIndex s + 1)"
  by (auto simp: step_def cursor_in_range_def clamp_cursor_def split: if_splits)

section \<open>The claims about the catalogue and the browser\<close>

text \<open>
  C6. For every Collection, property and term, every record returned by the exact
  search is also returned by the fuzzy search.
\<close>

theorem exact_search_subset_fuzzy_search:
  "set (exactSearch c property term) \<subseteq> set (fuzzySearch c property term)"
  by (auto simp: exactSearch_def fuzzySearch_def exact_match_fuzzy_match
      split: option.splits)

theorem exact_search_subset_fuzzy_search_witness:
  "exactSearch example_todos (Some ''status'') (Some ''open'') =
     [todo_entry ''a'' ''open'', todo_entry ''b'' ''open''] \<and>
   set [todo_entry ''a'' ''open'', todo_entry ''b'' ''open'']
     \<subseteq> set (fuzzySearch example_todos (Some ''status'') (Some ''open''))"
proof -
  have "exactSearch example_todos (Some ''status'') (Some ''open'') =
      [todo_entry ''a'' ''open'', todo_entry ''b'' ''open'']"
    by code_simp
  then show ?thesis
    using exact_search_subset_fuzzy_search [of example_todos "Some ''status''" "Some ''open''"]
    by simp
qed

text \<open>
  C7. For every Collection and property, sorting the ascending order again with
  \<^verbatim>\<open>reverse=true\<close> yields the element-wise reverse of the ascending order. The
  records missing the property are the tail of the ascending order, in their original
  order, and the head of the reversed order.
\<close>

theorem reverse_sort_is_reversal:
  "sortCollection (sortCollection c (Some p) False) (Some p) True =
     rev (sortCollection c (Some p) False) \<and>
   sortCollection c (Some p) False =
     sort_key (sort_value p) (filter (has_property p) c) @ filter (\<lambda>r. \<not> has_property p r) c \<and>
   sortCollection c (Some p) True =
     rev (filter (\<lambda>r. \<not> has_property p r) c) @
     rev (sort_key (sort_value p) (filter (has_property p) c))"
proof (intro conjI)
  show "sortCollection (sortCollection c (Some p) False) (Some p) True =
      rev (sortCollection c (Some p) False)"
    by (simp only: sortCollection_descending sortCollection_idempotent)
  show "sortCollection c (Some p) False =
      sort_key (sort_value p) (filter (has_property p) c) @ filter (\<lambda>r. \<not> has_property p r) c"
    by (rule sortCollection_ascending)
  show "sortCollection c (Some p) True =
      rev (filter (\<lambda>r. \<not> has_property p r) c) @
      rev (sort_key (sort_value p) (filter (has_property p) c))"
    by (simp add: sortCollection_descending sortCollection_ascending)
qed

theorem reverse_sort_is_reversal_witness:
  "sortCollection example_todos (Some ''status'') False =
     [todo_entry ''c'' ''done'', todo_entry ''a'' ''open'', todo_entry ''b'' ''open'',
      untitled_entry ''u''] \<and>
   sortCollection (sortCollection example_todos (Some ''status'') False) (Some ''status'') True =
     [untitled_entry ''u'', todo_entry ''b'' ''open'', todo_entry ''a'' ''open'',
      todo_entry ''c'' ''done'']"
proof -
  have "sortCollection example_todos (Some ''status'') False =
      [todo_entry ''c'' ''done'', todo_entry ''a'' ''open'', todo_entry ''b'' ''open'',
       untitled_entry ''u'']"
    by code_simp
  then show ?thesis
    using reverse_sort_is_reversal [of example_todos "''status''", THEN conjunct1] by simp
qed

text \<open>
  C8. A project whose kind-folder for the requested kind is missing or empty
  contributes no record, and when this holds for every marked project the load of that
  kind is the empty Collection, not a failure. With that load, the browsing session
  still starts: the display is acquired and the browser is called on the empty
  Collection, where the rendering is the "no entries" placeholder.
\<close>

theorem missing_folder_loads_empty:
  assumes "\<forall>proj \<in> set root. is_marked marker proj \<longrightarrow>
      map_of (folders proj) (kind_folder k) = None \<or>
      map_of (folders proj) (kind_folder k) = Some []"
    and "views_load_files_from_subdir env (kind_folder k) = Inr (load_kind marker root k)"
    and "curses_initscr env = None"
  shows "(\<forall>proj \<in> set root. is_marked marker proj \<longrightarrow> load_project k proj = []) \<and>
    load_kind marker root k = [] \<and>
    display_graphical_view env (kind_folder k) None None False None False =
      ([AcquireDisplay, LoadFiles (kind_folder k), DisplayFiles [] (kind_folder k), ReleaseDisplay],
       outcome (views_display_files_with_view env [] (kind_folder k))) \<and>
    render (start_session (load_kind marker root k) (load_kind marker root k) (kind_folder k))
      first_row height = [NoEntries]"
proof -
  have each: "\<forall>proj \<in> set root. is_marked marker proj \<longrightarrow> load_project k proj = []"
    using assms(1) by (simp add: load_project_nothing)
  have empty: "load_kind marker root k = []"
    using assms(1) by (rule load_kind_nothing)
  have "load_entries env (kind_folder k) = ([LoadFiles (kind_folder k)], Inr [])"
    using assms(2) empty by (simp add: load_entries_kind_folder)
  then have "inner env (kind_folder k) None None False None False =
      ([LoadFiles (kind_folder k), DisplayFiles [] (kind_folder k)],
       outcome (views_display_files_with_view env [] (kind_folder k)))"
    by (simp add: inner_unfiltered)
  then have session: "display_graphical_view env (kind_folder k) None None False None False =
      ([AcquireDisplay, LoadFiles (kind_folder k), DisplayFiles [] (kind_folder k), ReleaseDisplay],
       outcome (views_display_files_with_view env [] (kind_folder k)))"
    using assms(3) by (simp add: display_graphical_view_def curses_wrapper_def)
  have "render (start_session (load_kind marker root k) (load_kind marker root k) (kind_folder k))
      first_row height = [NoEntries]"
    by (simp add: empty render_def start_session_def)
  with each empty session show ?thesis
    by (intro conjI)
qed

theorem missing_folder_loads_empty_witness:
  "load_kind ''_org'' example_root Note = [] \<and>
   display_graphical_view example_catalogue_env ''notes'' None None False None False =
     ([AcquireDisplay, LoadFiles ''notes'', DisplayFiles [] ''notes'', ReleaseDisplay], Inr ())"
proof -
  have "\<forall>proj \<in> set example_root. is_marked ''_org'' proj \<longrightarrow>
      map_of (folders proj) (kind_folder Note) = None \<or>
      map_of (folders proj) (kind_folder Note) = Some []"
    by (simp add: example_root_def is_marked_def)
  moreover have "views_load_files_from_subdir example_catalogue_env (kind_folder Note) =
      Inr (load_kind ''_org'' example_root Note)"
    by (simp add: example_catalogue_env_def)
  moreover have "curses_initscr example_catalogue_env = None"
    by (simp add: example_catalogue_env_def)
  ultimately show ?thesis
    using missing_folder_loads_empty [of example_root "''_org''" Note example_catalogue_env]
    by (simp add: outcome_def example_catalogue_env_def)
qed

text \<open>
  C9. In every state reached from the start of a session by any sequence of input
  events, \<^verbatim>\<open>cursorIndex\<close> lies in \<^verbatim>\<open>[0, len(viewCollection)-1]\<close> when the view is not
  empty and is \<^verbatim>\<open>0\<close> when it is empty, and so it does after one more event. While
  browsing, moving up subtracts one except at index 0, where the cursor stays; moving
  down adds one except on the last row or in an empty view, where it stays; neither
  changes the view.
\<close>

theorem cursor_stays_in_range:
  assumes "s = run_session (start_session full view kinds) evs"
  shows "cursor_in_range s \<and> cursor_in_range (step s ev) \<and>
    (phase s = Browsing \<longrightarrow>
       cursorIndex (step s MoveUp) = (if cursorIndex s = 0 then 0 else cursorIndex s - 1) \<and>
       cursorIndex (step s MoveDown) =
         (if viewCollection s = [] \<or> cursorIndex s = int (length (viewCollection s)) - 1
          then cursorIndex s else cursorIndex s + 1)) \<and>
    viewCollection (step s MoveUp) = viewCollection s \<and>
    viewCollection (step s MoveDown) = viewCollection s"
proof -
  have inv: "cursor_in_range s"
    unfolding assms by (rule run_session_in_range) (rule start_session_in_range)
  then have "cursor_in_range (step s ev)"
    by (rule step_in_range)
  moreover have "viewCollection (step s MoveUp) = viewCollection s"
    and "viewCollection (step s MoveDown) = viewCollection s"
    by (simp_all add: step_def)
  ultimately show ?thesis
    using inv by (simp add: move_up_clamped move_down_clamped)
qed

theorem cursor_stays_in_range_witness:
  "cursorIndex (run_session (start_session example_todos example_todos ''todos'')
     [MoveDown, MoveDown, MoveDown, MoveDown, MoveDown]) = 3 \<and>
   cursorIndex (run_session (start_session example_todos example_todos ''todos'')
     [MoveDown, MoveDown, ExactCommand (Some ''status'') (Some ''open''), MoveUp]) = 0 \<and>
   cursor_in_range (run_session (start_session example_todos example_todos ''todos'')
     [MoveDown, MoveDown, ExactCommand (Some ''status'') (Some ''open''), MoveUp])"
proof -
  have "cursorIndex (run_session (start_session example_todos example_todos ''todos'')
     [MoveDown, MoveDown, MoveDown, MoveDown, MoveDown]) = 3"
    by code_simp
  moreover have "cursorIndex (run_session (start_session example_todos example_todos ''todos'')
     [MoveDown, MoveDown, ExactCommand (Some ''status'') (Some ''open''), MoveUp]) = 0"
    by code_simp
  ultimately show ?thesis
    using cursor_stays_in_range [OF refl, of example_todos example_todos "''todos''"
        "[MoveDown, MoveDown, ExactCommand (Some ''status'') (Some ''open''), MoveUp]" MoveUp]
    by simp
qed

end
